theory Spec2Isabelle
  imports Main "HOL-Library.Multiset"
begin

section \<open>Python values, exceptions and console output\<close>

text \<open>
  The room-availability pipeline of \<^verbatim>\<open>scrape.py\<close> works on the values that
  \<^verbatim>\<open>json.load\<close> and \<^verbatim>\<open>response.json()\<close> return: \<^verbatim>\<open>None\<close>, booleans, integers,
  floats, strings, lists and dictionaries with string keys. Floats are kept abstract (the
  type parameter \<open>'f\<close>). A dictionary is an association list read with \<open>map_of\<close>.
\<close>

datatype 'f pyval =
    PNone
  | PBool bool
  | PInt int
  | PFloat 'f
  | PStr string
  | PList "'f pyval list"
  | PDict "(string \<times> 'f pyval) list"

type_synonym 'f pydict = "(string \<times> 'f pyval) list"

text \<open>
  The exceptions that the pipeline can meet, all of them subclasses of \<^verbatim>\<open>Exception\<close>.
  \<open>RequestException\<close> stands for \<^verbatim>\<open>requests.exceptions.RequestException\<close> and its
  subclasses (connection errors, timeouts, \<^verbatim>\<open>HTTPError\<close> from \<^verbatim>\<open>raise_for_status\<close>);
  its argument is the text of the exception. \<open>KeyError\<close> carries the missing key.
\<close>

datatype py_exn =
    RequestException string
  | JSONDecodeError
  | FileNotFoundError
  | KeyError string
  | ValueError
  | TypeError
  | AttributeError
  | OverflowError
  | SqliteError
  | OtherException string

fun is_RequestException :: "py_exn \<Rightarrow> bool" where
  "is_RequestException (RequestException _) = True"
| "is_RequestException _ = False"

fun is_JSONDecodeError :: "py_exn \<Rightarrow> bool" where
  "is_JSONDecodeError JSONDecodeError = True"
| "is_JSONDecodeError _ = False"

fun is_FileNotFoundError :: "py_exn \<Rightarrow> bool" where
  "is_FileNotFoundError FileNotFoundError = True"
| "is_FileNotFoundError _ = False"

fun is_KeyError :: "py_exn \<Rightarrow> bool" where
  "is_KeyError (KeyError _) = True"
| "is_KeyError _ = False"

text \<open>\<^verbatim>\<open>json.JSONDecodeError\<close> is a subclass of \<^verbatim>\<open>ValueError\<close>.\<close>

fun is_ValueError :: "py_exn \<Rightarrow> bool" where
  "is_ValueError ValueError = True"
| "is_ValueError JSONDecodeError = True"
| "is_ValueError _ = False"

text \<open>
  Every \<^verbatim>\<open>print\<close> of the pipeline is one constructor, carrying the values that its
  f-string interpolates.
\<close>

datatype 'f log_msg =
    RequestErrorForRoom "'f pyval" py_exn
  | JSONDecodeErrorForRoom "'f pyval"
  | UnexpectedErrorForRoom "'f pyval" py_exn
  | ErrorFetchingRoom "'f pyval" py_exn
  | NoAvailabilityData
  | ErrorProcessingItem "'f pydict" py_exn
  | NoRecordsToInsert
  | InsertedRecords nat
  | ErrorInserting py_exn
  | RoomFileNotFound
  | RoomFileDecodeError
  | NoRoomIds

text \<open>The room identifier that a message names, if it names one.\<close>

fun log_room :: "'f log_msg \<Rightarrow> 'f pyval option" where
  "log_room (RequestErrorForRoom r _) = Some r"
| "log_room (JSONDecodeErrorForRoom r) = Some r"
| "log_room (UnexpectedErrorForRoom r _) = Some r"
| "log_room (ErrorFetchingRoom r _) = Some r"
| "log_room _ = None"

definition exn_bind :: "py_exn + 'a \<Rightarrow> ('a \<Rightarrow> py_exn + 'b) \<Rightarrow> py_exn + 'b" where
  "exn_bind m f = (case m of Inl e \<Rightarrow> Inl e | Inr x \<Rightarrow> f x)"

subsection \<open>Operations on values\<close>

text \<open>\<^verbatim>\<open>obj.get(key, default)\<close>: only a dictionary has the method.\<close>

fun py_get :: "'f pyval \<Rightarrow> string \<Rightarrow> 'f pyval \<Rightarrow> py_exn + 'f pyval" where
  "py_get (PDict d) k dflt = Inr (case map_of d k of None \<Rightarrow> dflt | Some v \<Rightarrow> v)"
| "py_get _ k dflt = Inl AttributeError"

text \<open>\<^verbatim>\<open>obj[key]\<close> with a string key.\<close>

fun py_getitem :: "'f pyval \<Rightarrow> string \<Rightarrow> py_exn + 'f pyval" where
  "py_getitem (PDict d) k = (case map_of d k of None \<Rightarrow> Inl (KeyError k) | Some v \<Rightarrow> Inr v)"
| "py_getitem _ k = Inl TypeError"

text \<open>
  \<^verbatim>\<open>for x in obj\<close>: a list gives its elements, a string its characters, a dictionary
  its keys; nothing else is iterable.
\<close>

fun py_iter :: "'f pyval \<Rightarrow> py_exn + 'f pyval list" where
  "py_iter (PList xs) = Inr xs"
| "py_iter (PStr s) = Inr (map (\<lambda>c. PStr [c]) s)"
| "py_iter (PDict d) = Inr (map PStr (remdups (map fst d)))"
| "py_iter _ = Inl TypeError"

section \<open>The availability fetcher\<close>

text \<open>
  The dictionary that \<^verbatim>\<open>fetch_single_room_availability\<close> appends for one item
  (lines 46 to 54); each \<^verbatim>\<open>item.get\<close> may raise.
\<close>

definition make_record :: "'f pyval \<Rightarrow> 'f pyval \<Rightarrow> 'f pyval \<Rightarrow> py_exn + 'f pydict" where
  "make_record space_id date item =
     exn_bind (py_get item ''itemName'' (PStr ''N/A'')) (\<lambda>event_name.
     exn_bind (py_get item ''start'' (PStr ''N/A'')) (\<lambda>time_start.
     exn_bind (py_get item ''end'' (PStr ''N/A'')) (\<lambda>time_end.
     exn_bind (py_get item ''type_id'' (PStr ''N/A'')) (\<lambda>status.
     exn_bind (py_get item ''itemId2'' (PStr ''N/A'')) (\<lambda>additional_details.
       Inr [(''room_id'', space_id),
            (''date'', date),
            (''event_name'', event_name),
            (''time_start'', time_start),
            (''time_end'', time_end),
            (''status'', status),
            (''additional_details'', additional_details)])))))"

text \<open>The inner loop (line 45) over the items of one subject.\<close>

fun items_loop ::
  "'f pyval \<Rightarrow> 'f pyval \<Rightarrow> 'f pyval list \<Rightarrow> 'f pydict list \<Rightarrow> py_exn + 'f pydict list" where
  "items_loop space_id date [] availability = Inr availability"
| "items_loop space_id date (item # items) availability =
     (case make_record space_id date item of
        Inl e \<Rightarrow> Inl e
      | Inr r \<Rightarrow> items_loop space_id date items (availability @ [r]))"

text \<open>The outer loop (line 43) over the subjects.\<close>

fun subjects_loop ::
  "'f pyval \<Rightarrow> 'f pyval list \<Rightarrow> 'f pydict list \<Rightarrow> py_exn + 'f pydict list" where
  "subjects_loop space_id [] availability = Inr availability"
| "subjects_loop space_id (subject # subjects) availability =
     exn_bind (py_get subject ''item_date'' (PStr '''')) (\<lambda>date.
     exn_bind (py_get subject ''items'' (PList [])) (\<lambda>its.
     exn_bind (py_iter its) (\<lambda>items.
     exn_bind (items_loop space_id date items availability) (\<lambda>availability'.
       subjects_loop space_id subjects availability'))))"

text \<open>Lines 42 to 55: the parsing of the decoded response.\<close>

definition parse_response :: "'f pyval \<Rightarrow> 'f pyval \<Rightarrow> py_exn + 'f pydict list" where
  "parse_response space_id data =
     exn_bind (py_get data ''subjects'' (PList [])) (\<lambda>subs.
     exn_bind (py_iter subs) (\<lambda>subjects.
       subjects_loop space_id subjects []))"

text \<open>
  The upstream service: the outcome of lines 39 to 41 (\<^verbatim>\<open>requests.get\<close>,
  \<^verbatim>\<open>raise_for_status\<close>, \<^verbatim>\<open>response.json()\<close>) for a room, a start date and a page
  size, either the decoded body or the exception raised.
\<close>

type_synonym 'f upstream = "'f pyval \<Rightarrow> string option \<Rightarrow> int \<Rightarrow> py_exn + 'f pyval"

text \<open>
  \<^verbatim>\<open>fetch_single_room_availability\<close>: what it prints, and what it returns or raises.
  The three \<^verbatim>\<open>except\<close> clauses are tried in the order of the source.
\<close>

definition fetch_single_room_availability ::
  "'f upstream \<Rightarrow> 'f pyval \<Rightarrow> string option \<Rightarrow> int
     \<Rightarrow> 'f log_msg list \<times> (py_exn + 'f pydict list)" where
  "fetch_single_room_availability http space_id start_date page_size =
     (case exn_bind (http space_id start_date page_size) (parse_response space_id) of
        Inr availability \<Rightarrow> ([], Inr availability)
      | Inl e \<Rightarrow>
          if is_RequestException e then ([RequestErrorForRoom space_id e], Inr [])
          else if is_JSONDecodeError e then ([JSONDecodeErrorForRoom space_id], Inr [])
          else ([UnexpectedErrorForRoom space_id e], Inr []))"

section \<open>The availability store\<close>

subsection \<open>The conversions \<^verbatim>\<open>float\<close> and \<^verbatim>\<open>int\<close>\<close>

text \<open>
  What the Python runtime does with the text of a number and with floating-point values
  is a parameter of the model: a result \<open>None\<close> of \<open>float_of_str\<close> or \<open>int_of_str\<close> is
  the \<^verbatim>\<open>ValueError\<close> that \<^verbatim>\<open>float\<close> and \<^verbatim>\<open>int\<close> raise on a string that is not a
  number, a result \<open>None\<close> of \<open>float_of_int\<close> the \<^verbatim>\<open>OverflowError\<close> of an integer too
  large for a float, and \<open>int_of_float\<close> raises on an infinity or a NaN.
\<close>

record 'f py_prims =
  float_of_str :: "string \<Rightarrow> 'f option"
  float_of_int :: "int \<Rightarrow> 'f option"
  int_of_str :: "string \<Rightarrow> int option"
  int_of_float :: "'f \<Rightarrow> py_exn + int"
  float_nonzero :: "'f \<Rightarrow> bool"

text \<open>\<^verbatim>\<open>float(v)\<close>: \<^verbatim>\<open>None\<close>, a list and a dictionary raise \<^verbatim>\<open>TypeError\<close>.\<close>

fun py_float :: "'f py_prims \<Rightarrow> 'f pyval \<Rightarrow> py_exn + 'f" where
  "py_float P (PStr s) = (case float_of_str P s of None \<Rightarrow> Inl ValueError | Some x \<Rightarrow> Inr x)"
| "py_float P (PInt i) = (case float_of_int P i of None \<Rightarrow> Inl OverflowError | Some x \<Rightarrow> Inr x)"
| "py_float P (PBool b) =
     (case float_of_int P (if b then 1 else 0) of None \<Rightarrow> Inl OverflowError | Some x \<Rightarrow> Inr x)"
| "py_float P (PFloat x) = Inr x"
| "py_float P PNone = Inl TypeError"
| "py_float P (PList _) = Inl TypeError"
| "py_float P (PDict _) = Inl TypeError"

text \<open>\<^verbatim>\<open>int(v)\<close>.\<close>

fun py_int :: "'f py_prims \<Rightarrow> 'f pyval \<Rightarrow> py_exn + int" where
  "py_int P (PStr s) = (case int_of_str P s of None \<Rightarrow> Inl ValueError | Some i \<Rightarrow> Inr i)"
| "py_int P (PInt i) = Inr i"
| "py_int P (PBool b) = Inr (if b then 1 else 0)"
| "py_int P (PFloat x) = int_of_float P x"
| "py_int P PNone = Inl TypeError"
| "py_int P (PList _) = Inl TypeError"
| "py_int P (PDict _) = Inl TypeError"

text \<open>The truth value of \<^verbatim>\<open>if v:\<close>.\<close>

fun py_truthy :: "'f py_prims \<Rightarrow> 'f pyval \<Rightarrow> bool" where
  "py_truthy P PNone = False"
| "py_truthy P (PBool b) = b"
| "py_truthy P (PInt i) = (i \<noteq> 0)"
| "py_truthy P (PFloat x) = float_nonzero P x"
| "py_truthy P (PStr s) = (s \<noteq> [])"
| "py_truthy P (PList xs) = (xs \<noteq> [])"
| "py_truthy P (PDict d) = (d \<noteq> [])"

subsection \<open>Coercion of one record\<close>

text \<open>The tuple of parameters bound to one \<^verbatim>\<open>INSERT\<close> (lines 144 to 152).\<close>

record 'f db_record =
  r_room_id :: "'f pyval"
  r_date :: "'f pyval"
  r_event_name :: "'f pyval"
  r_time_start :: "'f option"
  r_time_end :: "'f option"
  r_status :: "int option"
  r_additional_details :: "'f pyval"

text \<open>\<^verbatim>\<open>item[key]\<close> on a record of the batch.\<close>

definition item_get :: "'f pydict \<Rightarrow> string \<Rightarrow> py_exn + 'f pyval" where
  "item_get item k = (case map_of item k of None \<Rightarrow> Inl (KeyError k) | Some v \<Rightarrow> Inr v)"

text \<open>\<^verbatim>\<open>float(item[k]) if item[k] != "N/A" else None\<close>, and the same with \<^verbatim>\<open>int\<close>.\<close>

definition float_or_none :: "'f py_prims \<Rightarrow> 'f pydict \<Rightarrow> string \<Rightarrow> py_exn + 'f option" where
  "float_or_none P item k =
     exn_bind (item_get item k) (\<lambda>v.
       if v \<noteq> PStr ''N/A''
       then exn_bind (item_get item k) (\<lambda>v'. exn_bind (py_float P v') (\<lambda>x. Inr (Some x)))
       else Inr None)"

definition int_or_none :: "'f py_prims \<Rightarrow> 'f pydict \<Rightarrow> string \<Rightarrow> py_exn + int option" where
  "int_or_none P item k =
     exn_bind (item_get item k) (\<lambda>v.
       if v \<noteq> PStr ''N/A''
       then exn_bind (item_get item k) (\<lambda>v'. exn_bind (py_int P v') (\<lambda>i. Inr (Some i)))
       else Inr None)"

text \<open>The body of the \<^verbatim>\<open>try\<close> of lines 138 to 153, in the order of evaluation.\<close>

definition coerce_item :: "'f py_prims \<Rightarrow> 'f pydict \<Rightarrow> py_exn + 'f db_record" where
  "coerce_item P item =
     exn_bind (float_or_none P item ''time_start'') (\<lambda>time_start.
     exn_bind (float_or_none P item ''time_end'') (\<lambda>time_end.
     exn_bind (int_or_none P item ''status'') (\<lambda>status.
     exn_bind (item_get item ''room_id'') (\<lambda>room_id.
     exn_bind (item_get item ''date'') (\<lambda>date.
     exn_bind (item_get item ''event_name'') (\<lambda>event_name.
     exn_bind (item_get item ''additional_details'') (\<lambda>additional_details.
       Inr \<lparr>r_room_id = room_id, r_date = date, r_event_name = event_name,
            r_time_start = time_start, r_time_end = time_end, r_status = status,
            r_additional_details = additional_details\<rparr>)))))))"

text \<open>
  The loop of lines 137 to 155. \<^verbatim>\<open>except (KeyError, ValueError)\<close> prints and goes on
  to the next record; any other exception leaves the loop and the function. The result
  is the list \<^verbatim>\<open>records\<close>, what was printed, and the exception that escaped, if any.
\<close>

fun prepare_records ::
  "'f py_prims \<Rightarrow> 'f pydict list \<Rightarrow> 'f db_record list \<Rightarrow> 'f log_msg list
     \<Rightarrow> 'f db_record list \<times> 'f log_msg list \<times> py_exn option" where
  "prepare_records P [] records out = (records, out, None)"
| "prepare_records P (item # items) records out =
     (case coerce_item P item of
        Inr record \<Rightarrow> prepare_records P items (records @ [record]) out
      | Inl e \<Rightarrow>
          if is_KeyError e \<or> is_ValueError e
          then prepare_records P items records (out @ [ErrorProcessingItem item e])
          else (records, out, Some e))"

subsection \<open>The table\<close>

text \<open>
  The database file holds the table \<open>room_availability\<close> or not: \<open>None\<close> is the file
  without the table, \<open>Some rows\<close> the table with its rows, each the surrogate key and the
  values bound to the \<^verbatim>\<open>INSERT\<close>. The statements executed are recorded as they are
  issued. Column affinity (the conversion that SQLite applies to a stored value) is not
  part of the model.
\<close>

type_synonym 'f table = "(nat \<times> 'f db_record) list"

datatype sql_stmt =
    DropTableIfExists
  | CreateTable
  | InsertMany nat
  | Commit
  | Close

definition drop_table_if_exists :: "'f table option \<Rightarrow> 'f table option" where
  "drop_table_if_exists db = None"

definition create_table :: "'f table option \<Rightarrow> py_exn + 'f table option" where
  "create_table db = (case db of None \<Rightarrow> Inr (Some []) | Some t \<Rightarrow> Inl SqliteError)"

text \<open>
  The \<^verbatim>\<open>sqlite3\<close> module binds \<^verbatim>\<open>None\<close>, integers of 64 bits, floats and strings; a
  list or a dictionary raises an error of the module, a larger integer \<^verbatim>\<open>OverflowError\<close>.
\<close>

definition fits_int64 :: "int \<Rightarrow> bool" where
  "fits_int64 i = (- (2 ^ 63) \<le> i \<and> i < 2 ^ 63)"

fun bind_value :: "'f pyval \<Rightarrow> py_exn option" where
  "bind_value (PInt i) = (if fits_int64 i then None else Some OverflowError)"
| "bind_value (PList _) = Some SqliteError"
| "bind_value (PDict _) = Some SqliteError"
| "bind_value _ = None"

definition bind_status :: "int option \<Rightarrow> py_exn option" where
  "bind_status s = (case s of None \<Rightarrow> None
                    | Some i \<Rightarrow> if fits_int64 i then None else Some OverflowError)"

text \<open>The first error in binding the seven parameters of one record, in column order.\<close>

definition bind_record :: "'f db_record \<Rightarrow> py_exn option" where
  "bind_record r =
     (case bind_value (r_room_id r) of Some e \<Rightarrow> Some e | None \<Rightarrow>
     (case bind_value (r_date r) of Some e \<Rightarrow> Some e | None \<Rightarrow>
     (case bind_value (r_event_name r) of Some e \<Rightarrow> Some e | None \<Rightarrow>
     (case bind_status (r_status r) of Some e \<Rightarrow> Some e | None \<Rightarrow>
      bind_value (r_additional_details r)))))"

text \<open>
  \<^verbatim>\<open>executemany\<close> on the freshly created table: the rows get the keys 1, 2, ... in the
  order of the list, or the first binding error is raised.
\<close>

fun number_rows :: "nat \<Rightarrow> 'f db_record list \<Rightarrow> 'f table" where
  "number_rows n [] = []"
| "number_rows n (r # rs) = (n, r) # number_rows (Suc n) rs"

fun first_bind_error :: "'f db_record list \<Rightarrow> py_exn option" where
  "first_bind_error [] = None"
| "first_bind_error (r # rs) =
     (case bind_record r of Some e \<Rightarrow> Some e | None \<Rightarrow> first_bind_error rs)"

definition executemany_insert :: "'f db_record list \<Rightarrow> py_exn + 'f table" where
  "executemany_insert records =
     (case first_bind_error records of Some e \<Rightarrow> Inl e | None \<Rightarrow> Inr (number_rows 1 records))"

subsection \<open>\<^verbatim>\<open>store_availability_to_db\<close>\<close>

record 'f store_result =
  db_after :: "'f table option"
  sql_log :: "sql_stmt list"
  out_log :: "'f log_msg list"
  raised :: "py_exn option"

text \<open>
  The two DDL statements take effect when they are executed. The rows of
  \<^verbatim>\<open>executemany\<close> are in the table once \<^verbatim>\<open>commit\<close> has run; when \<^verbatim>\<open>executemany\<close>
  raises, the handler prints, \<^verbatim>\<open>close\<close> discards the rows inserted so far and the
  table stays empty.
\<close>

definition store_availability_to_db ::
  "'f py_prims \<Rightarrow> 'f pydict list \<Rightarrow> 'f table option \<Rightarrow> 'f store_result" where
  "store_availability_to_db P availability_data db =
     (if availability_data = []
      then \<lparr>db_after = db, sql_log = [], out_log = [NoAvailabilityData], raised = None\<rparr>
      else
        (case create_table (drop_table_if_exists db) of
           Inl e \<Rightarrow> \<lparr>db_after = drop_table_if_exists db, sql_log = [DropTableIfExists],
                     out_log = [], raised = Some e\<rparr>
         | Inr db1 \<Rightarrow>
            (case prepare_records P availability_data [] [] of
               (records, out, Some e) \<Rightarrow>
                 \<lparr>db_after = db1, sql_log = [DropTableIfExists, CreateTable],
                  out_log = out, raised = Some e\<rparr>
             | (records, out, None) \<Rightarrow>
                 if records = []
                 then \<lparr>db_after = db1, sql_log = [DropTableIfExists, CreateTable],
                       out_log = out @ [NoRecordsToInsert], raised = None\<rparr>
                 else
                   (case executemany_insert records of
                      Inr rows \<Rightarrow>
                        \<lparr>db_after = Some rows,
                         sql_log = [DropTableIfExists, CreateTable,
                                    InsertMany (length records), Commit, Close],
                         out_log = out @ [InsertedRecords (length records)],
                         raised = None\<rparr>
                    | Inl e \<Rightarrow>
                        \<lparr>db_after = db1,
                         sql_log = [DropTableIfExists, CreateTable,
                                    InsertMany (length records), Close],
                         out_log = out @ [ErrorInserting e],
                         raised = None\<rparr>))))"

section \<open>The concurrent fetch orchestrator\<close>

text \<open>
  A submitted task: the room it was submitted for, and what the call of
  \<^verbatim>\<open>fetch_single_room_availability\<close> prints and returns (or raises) in its worker.
\<close>

type_synonym 'f future = "'f pyval \<times> 'f log_msg list \<times> (py_exn + 'f pydict list)"

text \<open>
  The dictionary comprehension of lines 82 to 85: one task per room, with \<^verbatim>\<open>room['id']\<close>
  and the default page size 100. When \<^verbatim>\<open>room['id']\<close> raises, the tasks submitted so far
  still run and the exception leaves the function.
\<close>

fun submit_tasks ::
  "'f upstream \<Rightarrow> string option \<Rightarrow> 'f pyval list \<Rightarrow> 'f future list
     \<Rightarrow> 'f future list \<times> py_exn option" where
  "submit_tasks http start_date [] future_to_room = (future_to_room, None)"
| "submit_tasks http start_date (room # rooms) future_to_room =
     (case py_getitem room ''id'' of
        Inl e \<Rightarrow> (future_to_room, Some e)
      | Inr space_id \<Rightarrow>
          submit_tasks http start_date rooms
            (future_to_room @
               [(room, fetch_single_room_availability http space_id start_date 100)]))"

text \<open>
  The loop of lines 88 to 95 over the futures in their order of completion. The output of
  a worker is placed where its future is consumed.
\<close>

fun collect_results ::
  "'f future list \<Rightarrow> 'f pydict list \<Rightarrow> 'f log_msg list
     \<Rightarrow> 'f pydict list \<times> 'f log_msg list \<times> py_exn option" where
  "collect_results [] all_availability out = (all_availability, out, None)"
| "collect_results ((room, worker_out, outcome) # futures) all_availability out =
     (case outcome of
        Inr result \<Rightarrow>
          collect_results futures
            (if result \<noteq> [] then all_availability @ result else all_availability)
            (out @ worker_out)
      | Inl e \<Rightarrow>
          (case py_getitem room ''id'' of
             Inr space_id \<Rightarrow>
               collect_results futures all_availability
                 (out @ worker_out @ [ErrorFetchingRoom space_id e])
           | Inl e' \<Rightarrow> (all_availability, out @ worker_out, Some e')))"

text \<open>
  The result of a run: the table, the statements executed, the output, the room
  identifiers of the tasks submitted, the batch handed to the store (if the store was
  reached) and the exception that ended the run, if any.
\<close>

record 'f run_result =
  run_db :: "'f table option"
  run_sql :: "sql_stmt list"
  run_out :: "'f log_msg list"
  run_tasks :: "'f pyval list"
  run_batch :: "'f pydict list option"
  run_raised :: "py_exn option"

definition task_room_ids :: "'f future list \<Rightarrow> 'f pyval list" where
  "task_room_ids futures =
     concat (map (\<lambda>(room, _). case py_getitem room ''id'' of Inr i \<Rightarrow> [i] | Inl _ \<Rightarrow> []) futures)"

text \<open>
  \<^verbatim>\<open>fetch_all_rooms_availability\<close>. The order in which \<^verbatim>\<open>as_completed\<close> yields the
  futures is the parameter \<open>sched\<close>, a rearrangement of the list of futures.
\<close>

definition fetch_all_rooms_availability ::
  "'f py_prims \<Rightarrow> ('f future list \<Rightarrow> 'f future list) \<Rightarrow> 'f upstream
     \<Rightarrow> 'f pyval \<Rightarrow> string option \<Rightarrow> 'f table option \<Rightarrow> 'f run_result" where
  "fetch_all_rooms_availability P sched http room_ids start_date db =
     (case py_iter room_ids of
        Inl e \<Rightarrow>
          \<lparr>run_db = db, run_sql = [], run_out = [], run_tasks = [], run_batch = None,
           run_raised = Some e\<rparr>
      | Inr rooms \<Rightarrow>
          (case submit_tasks http start_date rooms [] of
             (future_to_room, Some e) \<Rightarrow>
               \<lparr>run_db = db, run_sql = [],
                run_out = concat (map (\<lambda>(room, worker_out, outcome). worker_out)
                                    (sched future_to_room)),
                run_tasks = task_room_ids future_to_room, run_batch = None,
                run_raised = Some e\<rparr>
           | (future_to_room, None) \<Rightarrow>
               (case collect_results (sched future_to_room) [] [] of
                  (all_availability, out, Some e) \<Rightarrow>
                    \<lparr>run_db = db, run_sql = [], run_out = out,
                     run_tasks = task_room_ids future_to_room, run_batch = None,
                     run_raised = Some e\<rparr>
                | (all_availability, out, None) \<Rightarrow>
                    (let s = store_availability_to_db P all_availability db
                     in \<lparr>run_db = db_after s, run_sql = sql_log s,
                         run_out = out @ out_log s,
                         run_tasks = task_room_ids future_to_room,
                         run_batch = Some all_availability,
                         run_raised = raised s\<rparr>))))"

section \<open>The entry point\<close>

text \<open>
  Lines 176 to 192. \<open>load\<close> is the outcome of opening and decoding \<^verbatim>\<open>room_ids.json\<close>.
\<close>

definition main ::
  "'f py_prims \<Rightarrow> ('f future list \<Rightarrow> 'f future list) \<Rightarrow> 'f upstream
     \<Rightarrow> py_exn + 'f pyval \<Rightarrow> 'f table option \<Rightarrow> 'f run_result" where
  "main P sched http load db =
     (case (case load of
              Inr v \<Rightarrow> Inr ([], v)
            | Inl e \<Rightarrow>
                if is_FileNotFoundError e then Inr ([RoomFileNotFound], PList [])
                else if is_JSONDecodeError e then Inr ([RoomFileDecodeError], PList [])
                else Inl e) of
        Inl e \<Rightarrow>
          \<lparr>run_db = db, run_sql = [], run_out = [], run_tasks = [], run_batch = None,
           run_raised = Some e\<rparr>
      | Inr (out, room_ids) \<Rightarrow>
          if py_truthy P room_ids
          then (let r = fetch_all_rooms_availability P sched http room_ids None db
                in r\<lparr>run_out := out @ run_out r\<rparr>)
          else \<lparr>run_db = db, run_sql = [], run_out = out @ [NoRoomIds], run_tasks = [],
                run_batch = None, run_raised = None\<rparr>)"

section \<open>A runtime for evaluation\<close>

text \<open>
  An instance of the conversions on which the model can be run: floats are whole numbers,
  and a string is a number when it is a non-empty sequence of decimal digits.
\<close>

definition digit_value :: "char \<Rightarrow> nat option" where
  "digit_value c =
     (if c \<in> set ''0123456789'' then Some (of_char c - 48) else None)"

fun digits_value :: "nat \<Rightarrow> string \<Rightarrow> nat option" where
  "digits_value acc [] = Some acc"
| "digits_value acc (c # cs) =
     (case digit_value c of None \<Rightarrow> None | Some d \<Rightarrow> digits_value (10 * acc + d) cs)"

definition decimal_of_str :: "string \<Rightarrow> int option" where
  "decimal_of_str s = (if s = [] then None else map_option int (digits_value 0 s))"

definition decimal_prims :: "int py_prims" where
  "decimal_prims =
     \<lparr>float_of_str = decimal_of_str, float_of_int = Some, int_of_str = decimal_of_str,
      int_of_float = Inr, float_nonzero = (\<lambda>x. x \<noteq> 0)\<rparr>"

section \<open>The interface of the upstream service\<close>

text \<open>
  The response as the description of the interface words it: an object with an array
  \<open>subjects\<close>, each subject an object with \<open>item_date\<close> and an array \<open>items\<close> of
  objects, each item with the optional fields \<open>itemName\<close>, \<open>start\<close>, \<open>end\<close>, \<open>type_id\<close>
  and \<open>itemId2\<close>. The definitions of this section follow that description and not the
  code: \<open>total_items\<close> counts the items of a response, \<open>item_record\<close> is the record
  expected for one item, \<open>documented_response\<close> says that a body has the described shape.
  The theorems compare them with what the fetcher computes.
\<close>

fun is_dict :: "'f pyval \<Rightarrow> bool" where
  "is_dict (PDict _) = True"
| "is_dict _ = False"

fun is_str :: "'f pyval \<Rightarrow> bool" where
  "is_str (PStr _) = True"
| "is_str _ = False"

definition field :: "'f pyval \<Rightarrow> string \<Rightarrow> 'f pyval \<Rightarrow> 'f pyval" where
  "field v k dflt = (case v of PDict d \<Rightarrow> (case map_of d k of None \<Rightarrow> dflt | Some x \<Rightarrow> x) | _ \<Rightarrow> dflt)"

definition has_key :: "'f pyval \<Rightarrow> string \<Rightarrow> bool" where
  "has_key v k = (case v of PDict d \<Rightarrow> map_of d k \<noteq> None | _ \<Rightarrow> False)"

definition array_elems :: "'f pyval \<Rightarrow> 'f pyval list" where
  "array_elems v = (case v of PList xs \<Rightarrow> xs | _ \<Rightarrow> [])"

definition response_subjects :: "'f pyval \<Rightarrow> 'f pyval list" where
  "response_subjects data = array_elems (field data ''subjects'' (PList []))"

definition subject_items :: "'f pyval \<Rightarrow> 'f pyval list" where
  "subject_items subject = array_elems (field subject ''items'' (PList []))"

definition total_items :: "'f pyval \<Rightarrow> nat" where
  "total_items data = sum_list (map (\<lambda>s. length (subject_items s)) (response_subjects data))"

definition item_record :: "'f pyval \<Rightarrow> 'f pyval \<Rightarrow> 'f pyval \<Rightarrow> 'f pydict" where
  "item_record space_id subject item =
     [(''room_id'', space_id),
      (''date'', field subject ''item_date'' (PStr '''')),
      (''event_name'', field item ''itemName'' (PStr ''N/A'')),
      (''time_start'', field item ''start'' (PStr ''N/A'')),
      (''time_end'', field item ''end'' (PStr ''N/A'')),
      (''status'', field item ''type_id'' (PStr ''N/A'')),
      (''additional_details'', field item ''itemId2'' (PStr ''N/A''))]"

definition subject_records :: "'f pyval \<Rightarrow> 'f pyval \<Rightarrow> 'f pydict list" where
  "subject_records space_id subject = map (item_record space_id subject) (subject_items subject)"

definition documented_subject :: "'f pyval \<Rightarrow> bool" where
  "documented_subject s =
     (case s of
        PDict d \<Rightarrow> (case map_of d ''items'' of
                      None \<Rightarrow> True
                    | Some (PList items) \<Rightarrow> list_all is_dict items
                    | Some _ \<Rightarrow> False)
      | _ \<Rightarrow> False)"

definition documented_response :: "'f pyval \<Rightarrow> bool" where
  "documented_response data =
     (case data of
        PDict d \<Rightarrow> (case map_of d ''subjects'' of
                      None \<Rightarrow> True
                    | Some (PList subjects) \<Rightarrow> list_all documented_subject subjects
                    | Some _ \<Rightarrow> False)
      | _ \<Rightarrow> False)"

section \<open>Reading the result of the store\<close>

text \<open>
  The records that the coercion accepts, the warnings it prints, and the two ways in which
  the coercion of a record can fail: with an exception that the loop catches (the record
  is dropped) or with one that it does not catch.
\<close>

definition table_rows :: "'f table option \<Rightarrow> 'f table" where
  "table_rows db = (case db of None \<Rightarrow> [] | Some rows \<Rightarrow> rows)"

definition coerced :: "'f py_prims \<Rightarrow> 'f pydict list \<Rightarrow> 'f db_record list" where
  "coerced P items =
     concat (map (\<lambda>item. case coerce_item P item of Inr r \<Rightarrow> [r] | Inl e \<Rightarrow> []) items)"

definition warnings :: "'f py_prims \<Rightarrow> 'f pydict list \<Rightarrow> 'f log_msg list" where
  "warnings P items =
     concat (map (\<lambda>item. case coerce_item P item of
                            Inr r \<Rightarrow> []
                          | Inl e \<Rightarrow> [ErrorProcessingItem item e]) items)"

definition dropped :: "'f py_prims \<Rightarrow> 'f pydict \<Rightarrow> bool" where
  "dropped P item =
     (case coerce_item P item of Inr r \<Rightarrow> False | Inl e \<Rightarrow> is_KeyError e \<or> is_ValueError e)"

definition escapes :: "'f py_prims \<Rightarrow> 'f pydict \<Rightarrow> bool" where
  "escapes P item =
     (case coerce_item P item of Inr r \<Rightarrow> False
      | Inl e \<Rightarrow> \<not> (is_KeyError e \<or> is_ValueError e))"

section \<open>Example data\<close>

text \<open>
  Inputs on which the model is evaluated: the upstream response of the documented
  scenario, a response whose subject has no date and one whose subject has the date
  \<^verbatim>\<open>null\<close>, an upstream that answers every request
  alike, batches for the store (all sentinels; numbers; a string that is not a number and
  a record without its keys; a \<^verbatim>\<open>None\<close> among numbers), and a directory of two rooms
  of which the first times out and the second has three items.
\<close>

definition scenario_response :: "int pyval" where
  "scenario_response =
     PDict [(''subjects'',
       PList [PDict [(''item_date'', PStr ''2024-11-14''),
                     (''items'',
                        PList [PDict [(''itemName'', PStr ''CS101''),
                                      (''start'', PStr ''2024-11-14 09:00:00''),
                                      (''end'', PStr ''2024-11-14 10:00:00''),
                                      (''type_id'', PStr ''2''),
                                      (''itemId2'', PStr ''A1'')]])]])]"

definition undated_response :: "int pyval" where
  "undated_response =
     PDict [(''subjects'',
       PList [PDict [(''items'', PList [PDict [(''itemName'', PStr ''CS101'')]])]])]"

definition null_date_response :: "int pyval" where
  "null_date_response =
     PDict [(''subjects'',
       PList [PDict [(''item_date'', PNone),
                     (''items'', PList [PDict [(''itemName'', PStr ''CS101'')]])]])]"

definition constant_upstream :: "py_exn + 'f pyval \<Rightarrow> 'f upstream" where
  "constant_upstream outcome = (\<lambda>space_id start_date page_size. outcome)"

definition availability_item ::
  "'f pyval \<Rightarrow> 'f pyval \<Rightarrow> 'f pyval \<Rightarrow> 'f pyval \<Rightarrow> 'f pydict" where
  "availability_item room_id time_start time_end status =
     [(''room_id'', room_id), (''date'', PStr ''2024-11-14''), (''event_name'', PStr ''CS101''),
      (''time_start'', time_start), (''time_end'', time_end), (''status'', status),
      (''additional_details'', PStr ''A1'')]"


definition numeric_batch :: "int pydict list" where
  "numeric_batch =
     [availability_item (PInt 101) (PInt 9) (PInt 10) (PInt 2),
      availability_item (PInt 102) (PInt 13) (PInt 14) (PStr ''N/A'')]"

definition non_numeric_batch :: "int pydict list" where
  "non_numeric_batch =
     [availability_item (PInt 101) (PStr ''abc'') (PInt 10) (PInt 2),
      [(''room_id'', PInt 102)]]"

definition null_start_batch :: "int pydict list" where
  "null_start_batch =
     [availability_item (PInt 101) (PInt 9) (PInt 10) (PInt 2),
      availability_item (PInt 101) PNone (PInt 10) (PInt 2),
      availability_item (PInt 101) (PInt 11) (PInt 12) (PInt 2)]"

definition two_rooms :: "int pyval" where
  "two_rooms =
     PList [PDict [(''id'', PInt 101), (''name'', PStr ''ESJ 0101'')],
            PDict [(''id'', PInt 102), (''name'', PStr ''ESJ 0202'')]]"

definition three_item_response :: "int pyval" where
  "three_item_response =
     PDict [(''subjects'',
       PList [PDict [(''item_date'', PStr ''2024-11-14''),
                     (''items'', PList [PDict [(''start'', PInt 9), (''end'', PInt 10)],
                                        PDict [(''start'', PInt 13), (''end'', PInt 14)]])],
              PDict [(''item_date'', PStr ''2024-11-15''),
                     (''items'', PList [PDict [(''start'', PInt 9), (''end'', PInt 10)]])]])]"

definition two_room_upstream :: "int upstream" where
  "two_room_upstream =
     (\<lambda>space_id start_date page_size.
        if space_id = PInt 102 then Inr three_item_response
        else Inl (RequestException ''timed out''))"

section \<open>Properties of the availability fetcher\<close>

lemma py_get_field: "py_get v k dflt = Inr x \<Longrightarrow> is_dict v \<and> x = field v k dflt"
  by (cases v) (simp_all add: field_def)

lemma py_get_dict: "is_dict v \<Longrightarrow> py_get v k dflt = Inr (field v k dflt)"
  by (cases v) (simp_all add: field_def)

lemma make_record_Inr:
  "make_record space_id date item = Inr r \<Longrightarrow>
     is_dict item \<and>
     r = [(''room_id'', space_id), (''date'', date),
          (''event_name'', field item ''itemName'' (PStr ''N/A'')),
          (''time_start'', field item ''start'' (PStr ''N/A'')),
          (''time_end'', field item ''end'' (PStr ''N/A'')),
          (''status'', field item ''type_id'' (PStr ''N/A'')),
          (''additional_details'', field item ''itemId2'' (PStr ''N/A''))]"
  by (cases item) (auto simp: make_record_def exn_bind_def field_def)

lemma make_record_dict:
  "is_dict item \<Longrightarrow> \<exists>r. make_record space_id date item = Inr r"
  by (cases item) (auto simp: make_record_def exn_bind_def)

lemma items_loop_Inr:
  "items_loop space_id (field subject ''item_date'' (PStr '''')) items acc = Inr r \<Longrightarrow>
     list_all is_dict items \<and> r = acc @ map (item_record space_id subject) items"
proof (induction items arbitrary: acc)
  case Nil
  then show ?case by simp
next
  case (Cons item items)
  from Cons.prems obtain x where
    m: "make_record space_id (field subject ''item_date'' (PStr '''')) item = Inr x" and
    l: "items_loop space_id (field subject ''item_date'' (PStr '''')) items (acc @ [x]) = Inr r"
    by (auto split: sum.splits)
  from m have "is_dict item" and "x = item_record space_id subject item"
    using make_record_Inr by (fastforce simp: item_record_def)+
  with Cons.IH [OF l] show ?case by simp
qed

lemma items_loop_dicts:
  "list_all is_dict items \<Longrightarrow> \<exists>r. items_loop space_id date items acc = Inr r"
proof (induction items arbitrary: acc)
  case Nil
  then show ?case by simp
next
  case (Cons item items)
  from Cons.prems obtain r where "make_record space_id date item = Inr r"
    using make_record_dict by fastforce
  with Cons show ?case by simp
qed

lemma py_iter_dicts:
  "py_iter v = Inr xs \<Longrightarrow> list_all is_dict xs \<Longrightarrow> xs = array_elems v"
  by (cases v) (auto simp: array_elems_def list_all_iff)

lemma subjects_loop_Inr:
  "subjects_loop space_id subjects acc = Inr r \<Longrightarrow>
     list_all is_dict subjects \<and> r = acc @ concat (map (subject_records space_id) subjects)"
proof (induction subjects arbitrary: acc)
  case Nil
  then show ?case by simp
next
  case (Cons s subjects)
  from Cons.prems obtain date its items acc' where
    d: "py_get s ''item_date'' (PStr '''') = Inr date" and
    i: "py_get s ''items'' (PList []) = Inr its" and
    it: "py_iter its = Inr items" and
    l: "items_loop space_id date items acc = Inr acc'" and
    rest: "subjects_loop space_id subjects acc' = Inr r"
    by (auto simp: exn_bind_def split: sum.splits)
  from d have sd: "is_dict s" and date: "date = field s ''item_date'' (PStr '''')"
    using py_get_field by blast+
  from i have its: "its = field s ''items'' (PList [])"
    using py_get_field by blast
  from l date have dicts: "list_all is_dict items"
    and acc': "acc' = acc @ map (item_record space_id s) items"
    using items_loop_Inr by blast+
  from it dicts its have "items = subject_items s"
    using py_iter_dicts by (simp add: subject_items_def)
  with acc' have "acc' = acc @ subject_records space_id s"
    by (simp add: subject_records_def)
  with Cons.IH [OF rest] sd show ?case by simp
qed

lemma parse_response_Inr:
  assumes "parse_response space_id data = Inr recs"
  shows "recs = concat (map (subject_records space_id) (response_subjects data))"
proof -
  from assms obtain subs subjects where
    s: "py_get data ''subjects'' (PList []) = Inr subs" and
    it: "py_iter subs = Inr subjects" and
    l: "subjects_loop space_id subjects [] = Inr recs"
    by (auto simp: parse_response_def exn_bind_def split: sum.splits)
  from s have subs: "subs = field data ''subjects'' (PList [])"
    using py_get_field by blast
  from l have dicts: "list_all is_dict subjects"
    and recs: "recs = concat (map (subject_records space_id) subjects)"
    using subjects_loop_Inr by fastforce+
  from it dicts subs have "subjects = response_subjects data"
    using py_iter_dicts by (simp add: response_subjects_def)
  with recs show ?thesis by simp
qed

lemma length_subject_records: "length (subject_records space_id s) = length (subject_items s)"
  by (simp add: subject_records_def)

lemma length_concat_subject_records:
  "length (concat (map (subject_records space_id) subjects))
     = sum_list (map (\<lambda>s. length (subject_items s)) subjects)"
  by (induction subjects) (simp_all add: length_subject_records)

lemma documented_subject_iter:
  "documented_subject s \<Longrightarrow>
     is_dict s \<and> (\<exists>its items. py_get s ''items'' (PList []) = Inr its \<and> py_iter its = Inr items
        \<and> list_all is_dict items)"
  by (cases s) (auto simp: documented_subject_def split: option.splits pyval.splits)

lemma subjects_loop_documented:
  "list_all documented_subject subjects \<Longrightarrow> \<exists>r. subjects_loop space_id subjects acc = Inr r"
proof (induction subjects arbitrary: acc)
  case Nil
  then show ?case by simp
next
  case (Cons s subjects)
  from Cons.prems have "documented_subject s" by simp
  then obtain its items where sd: "is_dict s"
    and i: "py_get s ''items'' (PList []) = Inr its"
    and it: "py_iter its = Inr items" and dicts: "list_all is_dict items"
    using documented_subject_iter by blast
  from sd have d: "py_get s ''item_date'' (PStr '''') = Inr (field s ''item_date'' (PStr ''''))"
    by (rule py_get_dict)
  from dicts obtain acc' where
    l: "items_loop space_id (field s ''item_date'' (PStr '''')) items acc = Inr acc'"
    using items_loop_dicts by blast
  from Cons.prems have "list_all documented_subject subjects" by simp
  then obtain r where "subjects_loop space_id subjects acc' = Inr r"
    using Cons.IH by blast
  with d i it l show ?case by (simp add: exn_bind_def)
qed

lemma parse_response_documented:
  "documented_response data \<Longrightarrow> \<exists>recs. parse_response space_id data = Inr recs"
  by (cases data)
     (auto simp: documented_response_def parse_response_def exn_bind_def
           split: option.splits pyval.splits intro: subjects_loop_documented)

lemma item_get_item_record_date:
  "item_get (item_record space_id s item) ''date'' = Inr (field s ''item_date'' (PStr ''''))"
  by (simp add: item_get_def item_record_def)

lemma item_get_item_record_room:
  "item_get (item_record space_id s item) ''room_id'' = Inr space_id"
  by (simp add: item_get_def item_record_def)

lemma field_missing: "\<not> has_key s k \<Longrightarrow> field s k dflt = dflt"
  by (cases s) (auto simp: has_key_def field_def)

text \<open>
  Claim C1. Whatever the upstream does, \<^verbatim>\<open>fetch_single_room_availability\<close> returns a
  list and raises nothing. When the request fails (the upstream raises: a network error,
  a timeout, a status outside 2xx, a body that is not JSON) or the parsing of the decoded
  body raises, it prints exactly one message, which names the room queried, and returns
  the empty list.
\<close>

theorem fetch_single_never_raises:
  "(\<exists>recs. snd (fetch_single_room_availability http space_id start_date page_size) = Inr recs)
   \<and> (\<forall>e. (http space_id start_date page_size = Inl e
            \<or> (\<exists>data. http space_id start_date page_size = Inr data
                      \<and> parse_response space_id data = Inl e))
        \<longrightarrow> (\<exists>m. fetch_single_room_availability http space_id start_date page_size
                    = ([m], Inr [])
                 \<and> log_room m = Some space_id))"
  by (auto simp: fetch_single_room_availability_def exn_bind_def split: sum.splits)

theorem fetch_single_never_raises_witness:
  "constant_upstream (Inr (PDict [(''subjects'', PInt 7)])) (PInt 101) None 100
     = Inr (PDict [(''subjects'', PInt 7)])
   \<and> parse_response (PInt 101) (PDict [(''subjects'', PInt 7)] :: int pyval) = Inl TypeError
   \<and> fetch_single_room_availability
        (constant_upstream (Inr (PDict [(''subjects'', PInt 7)]))) (PInt 101) None 100
      = ([UnexpectedErrorForRoom (PInt 101) TypeError], Inr [])
   \<and> log_room (UnexpectedErrorForRoom (PInt 101 :: int pyval) TypeError) = Some (PInt 101)"
  using fetch_single_never_raises
    [of "constant_upstream (Inr (PDict [(''subjects'', PInt 7)]))" "PInt 101 :: int pyval"
        None 100]
  by (simp add: constant_upstream_def parse_response_def exn_bind_def
        fetch_single_room_availability_def)

text \<open>
  Claim C2. A response is successful when the request returns a decoded body and the
  parsing of that body raises nothing; every body of the documented shape is parsed
  without an exception. For a successful response the fetcher prints nothing and returns
  one record per element of each subject's \<open>items\<close> array, in order, so the length of the
  list is the number of items summed over the entries of the \<open>subjects\<close> array.
\<close>

theorem fetch_single_one_record_per_item:
  assumes "http space_id start_date page_size = Inr data"
  shows "(documented_response data \<longrightarrow> (\<exists>recs. parse_response space_id data = Inr recs))
       \<and> (\<forall>recs. parse_response space_id data = Inr recs \<longrightarrow>
             fetch_single_room_availability http space_id start_date page_size = ([], Inr recs)
           \<and> recs = concat (map (subject_records space_id) (response_subjects data))
           \<and> length recs = total_items data)"
proof (intro conjI allI impI)
  assume "documented_response data"
  then show "\<exists>recs. parse_response space_id data = Inr recs"
    by (rule parse_response_documented)
next
  fix recs assume p: "parse_response space_id data = Inr recs"
  with assms show
    "fetch_single_room_availability http space_id start_date page_size = ([], Inr recs)"
    by (simp add: fetch_single_room_availability_def exn_bind_def)
  from p show r: "recs = concat (map (subject_records space_id) (response_subjects data))"
    by (rule parse_response_Inr)
  then show "length recs = total_items data"
    by (simp only: length_concat_subject_records total_items_def)
qed

theorem fetch_single_one_record_per_item_witness:
  "constant_upstream (Inr scenario_response) (PInt 101) None 100 = Inr scenario_response
   \<and> documented_response scenario_response
   \<and> fetch_single_room_availability (constant_upstream (Inr scenario_response))
        (PInt 101) None 100
      = ([], Inr [[(''room_id'', PInt 101), (''date'', PStr ''2024-11-14''),
                   (''event_name'', PStr ''CS101''),
                   (''time_start'', PStr ''2024-11-14 09:00:00''),
                   (''time_end'', PStr ''2024-11-14 10:00:00''),
                   (''status'', PStr ''2''), (''additional_details'', PStr ''A1'')]])
   \<and> total_items scenario_response = 1"
  using fetch_single_one_record_per_item
    [of "constant_upstream (Inr scenario_response)" "PInt 101" None 100 scenario_response]
  by (simp add: constant_upstream_def scenario_response_def documented_response_def
        documented_subject_def parse_response_def exn_bind_def make_record_def
        fetch_single_room_availability_def total_items_def response_subjects_def
        subject_items_def array_elems_def field_def subject_records_def item_record_def)

text \<open>
  Claim C10 as stated, at a response of the documented shape whose subject has
  \<^verbatim>\<open>"item_date": null\<close>: the key is present, so the default of \<^verbatim>\<open>subject.get\<close> is not
  used, and the record produced has \<^verbatim>\<open>None\<close> as its date. The date of a produced record
  is not always a string.
\<close>

theorem null_item_date_gives_null_date:
  "documented_response null_date_response
   \<and> parse_response (PInt 101) null_date_response
       = Inr [[(''room_id'', PInt 101), (''date'', PNone),
               (''event_name'', PStr ''CS101''), (''time_start'', PStr ''N/A''),
               (''time_end'', PStr ''N/A''), (''status'', PStr ''N/A''),
               (''additional_details'', PStr ''N/A'')]]
   \<and> item_get [(''room_id'', PInt 101 :: int pyval), (''date'', PNone),
               (''event_name'', PStr ''CS101''), (''time_start'', PStr ''N/A''),
               (''time_end'', PStr ''N/A''), (''status'', PStr ''N/A''),
               (''additional_details'', PStr ''N/A'')] ''date'' = Inr PNone
   \<and> \<not> is_str (PNone :: int pyval)"
  by (simp add: null_date_response_def documented_response_def documented_subject_def
        parse_response_def exn_bind_def make_record_def item_get_def)

text \<open>
  Claim C10, amended. In a successful response, every record produced from the items of a
  subject without the key \<open>item_date\<close> has the empty string as its date: not the sentinel
  \<^verbatim>\<open>"N/A"\<close> and not \<^verbatim>\<open>None\<close>. In general the date of a record is the \<open>item_date\<close> of
  its subject as the upstream sent it, or the empty string when the key is missing; so
  the date of every produced record is a string when each \<open>item_date\<close> that the upstream
  does send is a string.
\<close>

theorem missing_item_date_gives_empty_string:
  assumes "parse_response space_id data = Inr recs"
  shows "recs = concat (map (subject_records space_id) (response_subjects data))
       \<and> (\<forall>s \<in> set (response_subjects data). \<not> has_key s ''item_date'' \<longrightarrow>
            (\<forall>r \<in> set (subject_records space_id s).
                item_get r ''date'' = Inr (PStr '''')
              \<and> item_get r ''date'' \<noteq> Inr (PStr ''N/A'')
              \<and> item_get r ''date'' \<noteq> Inr PNone))
       \<and> ((\<forall>s \<in> set (response_subjects data).
               has_key s ''item_date'' \<longrightarrow> is_str (field s ''item_date'' (PStr '''')))
            \<longrightarrow> (\<forall>r \<in> set recs. \<exists>v. item_get r ''date'' = Inr v \<and> is_str v))
       \<and> (\<forall>s \<in> set (response_subjects data). \<forall>r \<in> set (subject_records space_id s).
             item_get r ''date'' = Inr (field s ''item_date'' (PStr '''')))"
proof (intro conjI ballI impI)
  {
    fix s r
    assume "s \<in> set (response_subjects data)" and "r \<in> set (subject_records space_id s)"
    then show "item_get r ''date'' = Inr (field s ''item_date'' (PStr ''''))"
      by (auto simp: subject_records_def item_get_item_record_date)
  }
  show r: "recs = concat (map (subject_records space_id) (response_subjects data))"
    using assms by (rule parse_response_Inr)
  {
    fix s r
    assume "\<not> has_key s ''item_date''" and "r \<in> set (subject_records space_id s)"
    then have "item_get r ''date'' = Inr (PStr '''')"
      by (auto simp: subject_records_def item_get_item_record_date field_missing)
  } note empty = this
  {
    fix s r
    assume "\<not> has_key s ''item_date''" and "r \<in> set (subject_records space_id s)"
    then show "item_get r ''date'' = Inr (PStr '''')" by (rule empty)
  }
  {
    fix s r
    assume "\<not> has_key s ''item_date''" and "r \<in> set (subject_records space_id s)"
    then show "item_get r ''date'' \<noteq> Inr (PStr ''N/A'')" by (simp add: empty)
  }
  {
    fix s r
    assume "\<not> has_key s ''item_date''" and "r \<in> set (subject_records space_id s)"
    then show "item_get r ''date'' \<noteq> Inr PNone" by (simp add: empty)
  }
  {
    fix r
    assume strs: "\<forall>s \<in> set (response_subjects data).
               has_key s ''item_date'' \<longrightarrow> is_str (field s ''item_date'' (PStr ''''))"
      and "r \<in> set recs"
    with r obtain s item where s: "s \<in> set (response_subjects data)"
      and rr: "r = item_record space_id s item"
      by (auto simp: subject_records_def)
    have "is_str (field s ''item_date'' (PStr ''''))"
    proof (cases "has_key s ''item_date''")
      case True
      with strs s show ?thesis by blast
    next
      case False
      then show ?thesis by (simp add: field_missing)
    qed
    with rr show "\<exists>v. item_get r ''date'' = Inr v \<and> is_str v"
      by (simp add: item_get_item_record_date)
  }
qed

theorem missing_item_date_gives_empty_string_witness:
  "parse_response (PInt 101) undated_response
     = Inr [[(''room_id'', PInt 101), (''date'', PStr ''''),
             (''event_name'', PStr ''CS101''), (''time_start'', PStr ''N/A''),
             (''time_end'', PStr ''N/A''), (''status'', PStr ''N/A''),
             (''additional_details'', PStr ''N/A'')]]
   \<and> response_subjects undated_response
       = [PDict [(''items'', PList [PDict [(''itemName'', PStr ''CS101'')]])]]
   \<and> \<not> has_key (PDict [(''items'', PList [PDict [(''itemName'', PStr ''CS101'')]])] :: int pyval)
          ''item_date''
   \<and> item_get [(''room_id'', PInt 101 :: int pyval), (''date'', PStr ''''),
             (''event_name'', PStr ''CS101''), (''time_start'', PStr ''N/A''),
             (''time_end'', PStr ''N/A''), (''status'', PStr ''N/A''),
             (''additional_details'', PStr ''N/A'')] ''date'' = Inr (PStr '''')"
  using missing_item_date_gives_empty_string
    [of "PInt 101" undated_response
        "[[(''room_id'', PInt 101), (''date'', PStr ''''),
           (''event_name'', PStr ''CS101''), (''time_start'', PStr ''N/A''),
           (''time_end'', PStr ''N/A''), (''status'', PStr ''N/A''),
           (''additional_details'', PStr ''N/A'')]]"]
  by (simp add: undated_response_def parse_response_def exn_bind_def make_record_def
        response_subjects_def array_elems_def field_def has_key_def item_get_def)

section \<open>Properties of the availability store\<close>

lemma create_after_drop: "create_table (drop_table_if_exists db) = Inr (Some [])"
  by (simp add: create_table_def drop_table_if_exists_def)



lemma coerce_item_Inr:
  "coerce_item P item = Inr r \<Longrightarrow>
     float_or_none P item ''time_start'' = Inr (r_time_start r)
   \<and> float_or_none P item ''time_end'' = Inr (r_time_end r)
   \<and> int_or_none P item ''status'' = Inr (r_status r)
   \<and> item_get item ''room_id'' = Inr (r_room_id r)"
  by (auto simp: coerce_item_def exn_bind_def split: sum.splits)

lemma prepare_records_sources:
  "prepare_records P items records out = (rs, out', x) \<Longrightarrow> r \<in> set rs \<Longrightarrow>
     r \<in> set records \<or> (\<exists>item \<in> set items. coerce_item P item = Inr r)"
proof (induction items arbitrary: records out)
  case Nil
  then show ?case by simp
next
  case (Cons item items)
  show ?case
  proof (cases "coerce_item P item")
    case (Inr rcd)
    with Cons.prems have "prepare_records P items (records @ [rcd]) out = (rs, out', x)"
      by simp
    from Cons.IH [OF this Cons.prems(2)] Inr show ?thesis by auto
  next
    case (Inl e)
    show ?thesis
    proof (cases "is_KeyError e \<or> is_ValueError e")
      case True
      with Inl Cons.prems have
        "prepare_records P items records (out @ [ErrorProcessingItem item e]) = (rs, out', x)"
        by simp
      from Cons.IH [OF this Cons.prems(2)] show ?thesis by auto
    next
      case False
      with Inl Cons.prems show ?thesis by simp
    qed
  qed
qed

lemma prepare_records_no_escape:
  "\<forall>item \<in> set items. \<not> escapes P item \<Longrightarrow>
     prepare_records P items records out
       = (records @ coerced P items, out @ warnings P items, None)"
proof (induction items arbitrary: records out)
  case Nil
  then show ?case by (simp add: coerced_def warnings_def)
next
  case (Cons item items)
  from Cons.prems have rest: "\<forall>item \<in> set items. \<not> escapes P item"
    and here: "\<not> escapes P item" by simp_all
  show ?case
  proof (cases "coerce_item P item")
    case (Inr rcd)
    with Cons.IH [OF rest] show ?thesis by (simp add: coerced_def warnings_def)
  next
    case (Inl e)
    with here have "is_KeyError e \<or> is_ValueError e" by (simp add: escapes_def)
    with Inl Cons.IH [OF rest] show ?thesis by (simp add: coerced_def warnings_def)
  qed
qed

lemma prepare_records_all_fail:
  "\<forall>item \<in> set items. \<exists>e. coerce_item P item = Inl e \<Longrightarrow>
     fst (prepare_records P items records out) = records"
proof (induction items arbitrary: records out)
  case Nil
  then show ?case by simp
next
  case (Cons item items)
  then show ?case by (auto split: sum.splits)
qed

lemma set_number_rows: "(k, r) \<in> set (number_rows n rs) \<Longrightarrow> r \<in> set rs"
  by (induction rs arbitrary: n) auto

lemma length_number_rows: "length (number_rows n rs) = length rs"
  by (induction rs arbitrary: n) auto

lemma store_nonempty:
  "batch \<noteq> [] \<Longrightarrow>
   store_availability_to_db P batch db =
     (case prepare_records P batch [] [] of
               (records, out, Some e) \<Rightarrow>
                 \<lparr>db_after = Some [], sql_log = [DropTableIfExists, CreateTable],
                  out_log = out, raised = Some e\<rparr>
             | (records, out, None) \<Rightarrow>
                 if records = []
                 then \<lparr>db_after = Some [], sql_log = [DropTableIfExists, CreateTable],
                       out_log = out @ [NoRecordsToInsert], raised = None\<rparr>
                 else
                   (case executemany_insert records of
                      Inr rows \<Rightarrow>
                        \<lparr>db_after = Some rows,
                         sql_log = [DropTableIfExists, CreateTable,
                                    InsertMany (length records), Commit, Close],
                         out_log = out @ [InsertedRecords (length records)],
                         raised = None\<rparr>
                    | Inl e \<Rightarrow>
                        \<lparr>db_after = Some [],
                         sql_log = [DropTableIfExists, CreateTable,
                                    InsertMany (length records), Close],
                         out_log = out @ [ErrorInserting e],
                         raised = None\<rparr>))"
  by (simp add: store_availability_to_db_def create_after_drop)

lemma store_rows_sources:
  assumes "batch \<noteq> []" and "(k, r) \<in> set (table_rows (db_after (store_availability_to_db P batch db)))"
  shows "\<exists>item \<in> set batch. coerce_item P item = Inr r"
proof -
  obtain rs out x where p: "prepare_records P batch [] [] = (rs, out, x)"
    by (cases "prepare_records P batch [] []") auto
  from assms p have "r \<in> set rs"
    by (auto simp: store_nonempty table_rows_def executemany_insert_def
          split: option.splits if_splits sum.splits dest: set_number_rows)
  with prepare_records_sources [OF p] show ?thesis by auto
qed

lemma store_prefix:
  "batch \<noteq> [] \<Longrightarrow> take 2 (sql_log (store_availability_to_db P batch db)) = [DropTableIfExists, CreateTable]
     \<and> db_after (store_availability_to_db P batch db) \<noteq> None"
  by (auto simp: store_nonempty split: prod.splits option.splits sum.splits)

lemma store_independent:
  "batch \<noteq> [] \<Longrightarrow> store_availability_to_db P batch db' = store_availability_to_db P batch db"
  by (simp add: store_nonempty)

lemmas eval_store =
  store_nonempty availability_item_def coerce_item_def float_or_none_def int_or_none_def
  item_get_def exn_bind_def decimal_prims_def decimal_of_str_def digit_value_def
  executemany_insert_def bind_record_def bind_status_def fits_int64_def table_rows_def

lemma coerced_all_ok:
  "\<forall>item \<in> set items. \<exists>r. coerce_item P item = Inr r \<Longrightarrow>
     length (coerced P items) = length items"
  by (induction items) (auto simp: coerced_def)

lemma coerced_all_fail:
  "\<forall>item \<in> set items. \<exists>e. coerce_item P item = Inl e \<Longrightarrow> coerced P items = []"
  by (induction items) (auto simp: coerced_def)



text \<open>
  Claim C4. For a non-empty batch, the store run twice in succession leaves the same table
  after the second run as after the first, with the same number of rows: each run starts
  with \<^verbatim>\<open>DROP TABLE IF EXISTS\<close> and \<^verbatim>\<open>CREATE TABLE\<close>, whatever the table held before.
  When every record is coerced and bound, that number is the length of the batch after
  either run.
\<close>

theorem store_twice_same_row_count:
  assumes "batch \<noteq> []"
  shows "(let first = store_availability_to_db P batch db;
              second = store_availability_to_db P batch (db_after first)
          in length (table_rows (db_after second)) = length (table_rows (db_after first))
           \<and> db_after second = db_after first
           \<and> db_after first \<noteq> None
           \<and> take 2 (sql_log first) = [DropTableIfExists, CreateTable]
           \<and> take 2 (sql_log second) = [DropTableIfExists, CreateTable]
           \<and> ((\<forall>item \<in> set batch. \<exists>r. coerce_item P item = Inr r)
                \<and> first_bind_error (coerced P batch) = None
               \<longrightarrow> length (table_rows (db_after first)) = length batch
                 \<and> length (table_rows (db_after second)) = length batch))"
proof -
  let ?first = "store_availability_to_db P batch db"
  let ?second = "store_availability_to_db P batch (db_after ?first)"
  from assms have same: "?second = ?first" by (rule store_independent)
  from assms have pre: "take 2 (sql_log ?first) = [DropTableIfExists, CreateTable]"
    and tbl: "db_after ?first \<noteq> None"
    using store_prefix by blast+
  have full: "length (table_rows (db_after ?first)) = length batch"
    if ok: "\<forall>item \<in> set batch. \<exists>r. coerce_item P item = Inr r"
      and bind: "first_bind_error (coerced P batch) = None"
  proof -
    from ok have "\<forall>item \<in> set batch. \<not> escapes P item"
      by (auto simp: escapes_def)
    then have p: "prepare_records P batch [] [] = (coerced P batch, warnings P batch, None)"
      using prepare_records_no_escape [of batch P "[]" "[]"] by simp
    from ok have len: "length (coerced P batch) = length batch" by (rule coerced_all_ok)
    with assms have "coerced P batch \<noteq> []" by auto
    with assms p bind len show ?thesis
      by (simp add: store_nonempty executemany_insert_def table_rows_def length_number_rows)
  qed
  from same pre tbl full show ?thesis by (simp add: Let_def)
qed

theorem store_twice_same_row_count_witness:
  "numeric_batch \<noteq> []
   \<and> length (table_rows (db_after (store_availability_to_db decimal_prims numeric_batch None))) = 2
   \<and> length (table_rows (db_after (store_availability_to_db decimal_prims numeric_batch
        (db_after (store_availability_to_db decimal_prims numeric_batch None))))) = 2"
  using store_twice_same_row_count [of numeric_batch decimal_prims None]
  by (simp add: numeric_batch_def eval_store)

text \<open>
  Claim C5, at a batch of three records whose second has \<^verbatim>\<open>None\<close> as \<open>time_start\<close> (the
  upstream sent \<^verbatim>\<open>"start": null\<close>): \<^verbatim>\<open>float(None)\<close> raises \<^verbatim>\<open>TypeError\<close>, which the
  handler of the loop does not catch. The exception leaves the store, nothing is printed
  and nothing is inserted: the two valid records are lost with the third.
\<close>

theorem store_null_time_aborts_batch:
  "store_availability_to_db decimal_prims null_start_batch db
     = \<lparr>db_after = Some [], sql_log = [DropTableIfExists, CreateTable], out_log = [],
        raised = Some TypeError\<rparr>"
  by (simp add: null_start_batch_def eval_store)

text \<open>
  Claim C9. For a non-empty batch in which the coercion of every record fails, the store
  executes \<^verbatim>\<open>DROP TABLE IF EXISTS\<close> and \<^verbatim>\<open>CREATE TABLE\<close> and nothing else, and leaves
  the table empty, whatever it held before. When every failure is one that the loop
  catches, the store prints a warning per record and \<^verbatim>\<open>No records to insert.\<close>, and
  returns. On the empty batch the store prints and touches nothing.
\<close>

theorem store_all_dropped_recreates_table:
  assumes "batch \<noteq> []" and "\<forall>item \<in> set batch. \<exists>e. coerce_item P item = Inl e"
  shows "db_after (store_availability_to_db P batch db) = Some []
       \<and> sql_log (store_availability_to_db P batch db) = [DropTableIfExists, CreateTable]
       \<and> ((\<forall>item \<in> set batch. dropped P item) \<longrightarrow>
             raised (store_availability_to_db P batch db) = None
           \<and> out_log (store_availability_to_db P batch db)
               = warnings P batch @ [NoRecordsToInsert])
       \<and> store_availability_to_db P [] db
           = \<lparr>db_after = db, sql_log = [], out_log = [NoAvailabilityData], raised = None\<rparr>"
proof (intro conjI impI)
  obtain rs out x where p: "prepare_records P batch [] [] = (rs, out, x)"
    by (cases "prepare_records P batch [] []") auto
  from assms(2) have "fst (prepare_records P batch [] []) = []"
    by (rule prepare_records_all_fail)
  with p have rs: "rs = []" by simp
  from assms(1) p rs show "db_after (store_availability_to_db P batch db) = Some []"
    by (cases x) (simp_all add: store_nonempty)
  from assms(1) p rs show
    "sql_log (store_availability_to_db P batch db) = [DropTableIfExists, CreateTable]"
    by (cases x) (simp_all add: store_nonempty)
  show "store_availability_to_db P [] db
          = \<lparr>db_after = db, sql_log = [], out_log = [NoAvailabilityData], raised = None\<rparr>"
    by (simp add: store_availability_to_db_def)
  assume d: "\<forall>item \<in> set batch. dropped P item"
  then have "\<forall>item \<in> set batch. \<not> escapes P item"
    by (auto simp: dropped_def escapes_def split: sum.splits)
  then have p': "prepare_records P batch [] [] = (coerced P batch, warnings P batch, None)"
    using prepare_records_no_escape [of batch P "[]" "[]"] by simp
  from assms(2) have "coerced P batch = []" by (rule coerced_all_fail)
  with assms(1) p' show "raised (store_availability_to_db P batch db) = None"
    and "out_log (store_availability_to_db P batch db) = warnings P batch @ [NoRecordsToInsert]"
    by (simp_all add: store_nonempty)
qed

theorem store_all_dropped_recreates_table_witness:
  "non_numeric_batch \<noteq> []
   \<and> coerce_item decimal_prims (availability_item (PInt 101) (PStr ''abc'') (PInt 10) (PInt 2))
       = Inl ValueError
   \<and> coerce_item decimal_prims [(''room_id'', PInt 102)] = Inl (KeyError ''time_start'')
   \<and> store_availability_to_db decimal_prims non_numeric_batch
        (Some [(7, \<lparr>r_room_id = PInt 5, r_date = PStr ''2024-11-13'',
                    r_event_name = PStr ''old'', r_time_start = None, r_time_end = None,
                    r_status = None, r_additional_details = PStr ''N/A''\<rparr>)])
      = \<lparr>db_after = Some [], sql_log = [DropTableIfExists, CreateTable],
         out_log = [ErrorProcessingItem
                      (availability_item (PInt 101) (PStr ''abc'') (PInt 10) (PInt 2)) ValueError,
                    ErrorProcessingItem [(''room_id'', PInt 102)] (KeyError ''time_start''),
                    NoRecordsToInsert],
         raised = None\<rparr>"
  using store_all_dropped_recreates_table
    [of non_numeric_batch decimal_prims
        "Some [(7, \<lparr>r_room_id = PInt 5, r_date = PStr ''2024-11-13'',
                    r_event_name = PStr ''old'', r_time_start = None, r_time_end = None,
                    r_status = None, r_additional_details = PStr ''N/A''\<rparr>)]"]
  by (simp add: non_numeric_batch_def eval_store)

section \<open>Properties of the orchestrator and of the entry point\<close>

lemma fetch_single_returns:
  "\<exists>out recs. fetch_single_room_availability http space_id start_date page_size = (out, Inr recs)"
  by (auto simp: fetch_single_room_availability_def split: sum.splits)

lemma fetch_single_room_ids:
  assumes "fetch_single_room_availability http space_id start_date page_size = (out, Inr recs)"
    and "r \<in> set recs"
  shows "item_get r ''room_id'' = Inr space_id"
proof (cases "exn_bind (http space_id start_date page_size) (parse_response space_id)")
  case (Inl e)
  with assms show ?thesis
    by (auto simp: fetch_single_room_availability_def split: if_splits)
next
  case (Inr availability)
  with assms(1) have "recs = availability"
    by (simp add: fetch_single_room_availability_def)
  with Inr obtain data where "parse_response space_id data = Inr recs"
    by (auto simp: exn_bind_def split: sum.splits)
  then have "recs = concat (map (subject_records space_id) (response_subjects data))"
    by (rule parse_response_Inr)
  with assms(2) obtain s item where "r = item_record space_id s item"
    by (auto simp: subject_records_def)
  then show ?thesis by (simp add: item_get_item_record_room)
qed

lemma submit_tasks_futures:
  "submit_tasks http start_date rooms futs = (fs, x) \<Longrightarrow> f \<in> set fs \<Longrightarrow>
     f \<in> set futs \<or>
     (\<exists>room \<in> set rooms. \<exists>space_id. py_getitem room ''id'' = Inr space_id
        \<and> f = (room, fetch_single_room_availability http space_id start_date 100))"
proof (induction rooms arbitrary: futs)
  case Nil
  then show ?case by simp
next
  case (Cons room rooms)
  show ?case
  proof (cases "py_getitem room ''id''")
    case (Inl e)
    with Cons.prems show ?thesis by simp
  next
    case (Inr space_id)
    with Cons.prems have "submit_tasks http start_date rooms
        (futs @ [(room, fetch_single_room_availability http space_id start_date 100)]) = (fs, x)"
      by simp
    from Cons.IH [OF this Cons.prems(2)] Inr show ?thesis by auto
  qed
qed

lemma collect_results_sources:
  "collect_results fs all_availability out = (batch, out', x) \<Longrightarrow> r \<in> set batch \<Longrightarrow>
     r \<in> set all_availability \<or>
     (\<exists>room worker_out recs. (room, worker_out, Inr recs) \<in> set fs \<and> r \<in> set recs)"
proof (induction fs arbitrary: all_availability out)
  case Nil
  then show ?case by simp
next
  case (Cons f fs)
  obtain room worker_out outcome where f: "f = (room, worker_out, outcome)"
    by (cases f) auto
  show ?case
  proof (cases outcome)
    case (Inr result)
    with f Cons.prems have "collect_results fs
        (if result \<noteq> [] then all_availability @ result else all_availability)
        (out @ worker_out) = (batch, out', x)"
      by simp
    from Cons.IH [OF this Cons.prems(2)] f Inr show ?thesis
      by (auto split: if_splits)
  next
    case (Inl e)
    show ?thesis
    proof (cases "py_getitem room ''id''")
      case bad: (Inl e')
      with f Inl Cons.prems show ?thesis by simp
    next
      case ok: (Inr space_id)
      with f Inl Cons.prems have "collect_results fs all_availability
          (out @ worker_out @ [ErrorFetchingRoom space_id e]) = (batch, out', x)"
        by simp
      from Cons.IH [OF this Cons.prems(2)] show ?thesis by auto
    qed
  qed
qed

lemma task_room_ids_sources:
  "space_id \<in> set (task_room_ids fs) \<Longrightarrow>
     \<exists>room worker_out outcome. (room, worker_out, outcome) \<in> set fs
        \<and> py_getitem room ''id'' = Inr space_id"
  by (fastforce simp: task_room_ids_def split: sum.splits)



lemma two_element_list:
  assumes "mset xs = {#a, b#}"
  shows "xs = [a, b] \<or> xs = [b, a]"
proof -
  from assms have "size (mset xs) = 2" by simp
  then have "length xs = 2" by simp
  then obtain x y where xs: "xs = [x, y]"
    by (cases xs; cases "tl xs") auto
  with assms have "{#x, y#} = {#a, b#}" by simp
  then have "(x = a \<and> y = b) \<or> (x = b \<and> y = a)"
    by (auto simp: add_eq_conv_ex)
  with xs show ?thesis by auto
qed

lemma collect_results_two:
  assumes "recs \<noteq> []"
    and "fs = [(room1, [m], Inr []), (room2, [], Inr recs)]
       \<or> fs = [(room2, [], Inr recs), (room1, [m], Inr [])]"
  shows "collect_results fs [] [] = (recs, [m], None)"
  using assms by auto

lemma fetch_all_reaches_store:
  assumes "run_batch (fetch_all_rooms_availability P sched http room_ids start_date db)
             = Some batch"
  shows "\<exists>rooms fs out.
           py_iter room_ids = Inr rooms
         \<and> submit_tasks http start_date rooms [] = (fs, None)
         \<and> collect_results (sched fs) [] [] = (batch, out, None)
         \<and> fetch_all_rooms_availability P sched http room_ids start_date db
             = \<lparr>run_db = db_after (store_availability_to_db P batch db),
                run_sql = sql_log (store_availability_to_db P batch db),
                run_out = out @ out_log (store_availability_to_db P batch db),
                run_tasks = task_room_ids fs,
                run_batch = Some batch,
                run_raised = raised (store_availability_to_db P batch db)\<rparr>"
proof (cases "py_iter room_ids")
  case (Inl e)
  with assms show ?thesis by (simp add: fetch_all_rooms_availability_def)
next
  case (Inr rooms)
  obtain fs x where s: "submit_tasks http start_date rooms [] = (fs, x)"
    by (cases "submit_tasks http start_date rooms []") auto
  show ?thesis
  proof (cases x)
    case (Some e)
    with assms Inr s show ?thesis by (simp add: fetch_all_rooms_availability_def)
  next
    case None
    obtain all_availability out y where
      c: "collect_results (sched fs) [] [] = (all_availability, out, y)"
      by (cases "collect_results (sched fs) [] []") auto
    show ?thesis
    proof (cases y)
      case (Some e)
      with assms Inr s None c show ?thesis by (simp add: fetch_all_rooms_availability_def)
    next
      case n: None
      with assms Inr s None c have "all_availability = batch"
        by (simp add: fetch_all_rooms_availability_def Let_def)
      with Inr s None c n show ?thesis
        by (simp add: fetch_all_rooms_availability_def Let_def)
    qed
  qed
qed

lemma fetch_all_batch_sources:
  assumes sched: "\<forall>fs. mset (sched fs) = mset fs"
    and batch: "run_batch (fetch_all_rooms_availability P sched http room_ids start_date db)
                  = Some batch"
    and r: "r \<in> set batch"
  shows "\<exists>rooms. py_iter room_ids = Inr rooms
           \<and> (\<exists>room \<in> set rooms. \<exists>space_id. py_getitem room ''id'' = Inr space_id
                 \<and> item_get r ''room_id'' = Inr space_id)"
proof -
  from fetch_all_reaches_store [OF batch] obtain rooms fs out where
    rooms: "py_iter room_ids = Inr rooms" and
    s: "submit_tasks http start_date rooms [] = (fs, None)" and
    c: "collect_results (sched fs) [] [] = (batch, out, None)"
    by blast
  from collect_results_sources [OF c r] obtain room worker_out recs where
    "(room, worker_out, Inr recs) \<in> set (sched fs)" and rr: "r \<in> set recs"
    by auto
  moreover from sched have "set (sched fs) = set fs" by (metis set_mset_mset)
  ultimately have f: "(room, worker_out, Inr recs) \<in> set fs" by simp
  from submit_tasks_futures [OF s f] obtain room' space_id where room': "room' \<in> set rooms"
    and sid: "py_getitem room' ''id'' = Inr space_id"
    and f': "(room, worker_out, Inr recs)
              = (room', fetch_single_room_availability http space_id start_date 100)"
    by auto
  from f' have "fetch_single_room_availability http space_id start_date 100
                 = (worker_out, Inr recs)" by simp
  from fetch_single_room_ids [OF this rr] room' sid rooms show ?thesis by blast
qed

lemma fetch_all_tasks_sources:
  assumes batch: "run_batch (fetch_all_rooms_availability P sched http room_ids start_date db)
                    = Some batch"
    and t: "space_id \<in> set (run_tasks (fetch_all_rooms_availability P sched http room_ids
                                         start_date db))"
  shows "\<exists>rooms. py_iter room_ids = Inr rooms
           \<and> (\<exists>room \<in> set rooms. py_getitem room ''id'' = Inr space_id)"
proof -
  from fetch_all_reaches_store [OF batch] obtain rooms fs out where
    rooms: "py_iter room_ids = Inr rooms" and
    s: "submit_tasks http start_date rooms [] = (fs, None)" and
    tasks: "run_tasks (fetch_all_rooms_availability P sched http room_ids start_date db)
              = task_room_ids fs"
    by fastforce
  from t tasks have "space_id \<in> set (task_room_ids fs)" by simp
  then obtain room worker_out outcome where f: "(room, worker_out, outcome) \<in> set fs"
    and sid: "py_getitem room ''id'' = Inr space_id"
    using task_room_ids_sources by blast
  from submit_tasks_futures [OF s f] have "room \<in> set rooms" by auto
  with sid rooms show ?thesis by blast
qed

lemma fetch_all_rows_sources:
  assumes sched: "\<forall>fs. mset (sched fs) = mset fs"
    and batch: "run_batch (fetch_all_rooms_availability P sched http room_ids start_date db)
                  = Some batch"
    and ne: "batch \<noteq> []"
    and row: "(k, row) \<in> set (table_rows (run_db (fetch_all_rooms_availability P sched http
                                                   room_ids start_date db)))"
  shows "\<exists>rooms. py_iter room_ids = Inr rooms
           \<and> (\<exists>room \<in> set rooms. py_getitem room ''id'' = Inr (r_room_id row))"
proof -
  from fetch_all_reaches_store [OF batch] have
    "run_db (fetch_all_rooms_availability P sched http room_ids start_date db)
       = db_after (store_availability_to_db P batch db)"
    by fastforce
  with row have "(k, row) \<in> set (table_rows (db_after (store_availability_to_db P batch db)))"
    by simp
  from store_rows_sources [OF ne this] obtain item where item: "item \<in> set batch"
    and c: "coerce_item P item = Inr row" by blast
  from c have "item_get item ''room_id'' = Inr (r_room_id row)"
    using coerce_item_Inr by blast
  with fetch_all_batch_sources [OF sched batch item] show ?thesis by auto
qed

lemma main_batch:
  assumes "run_batch (main P sched http load db) = Some batch"
  shows "\<exists>room_ids. load = Inr room_ids
           \<and> run_batch (fetch_all_rooms_availability P sched http room_ids None db) = Some batch
           \<and> run_db (main P sched http load db)
               = run_db (fetch_all_rooms_availability P sched http room_ids None db)
           \<and> run_tasks (main P sched http load db)
               = run_tasks (fetch_all_rooms_availability P sched http room_ids None db)"
proof (cases load)
  case (Inl e)
  with assms show ?thesis by (simp add: main_def split: if_splits)
next
  case (Inr room_ids)
  show ?thesis
  proof (cases "py_truthy P room_ids")
    case True
    with Inr assms show ?thesis by (simp add: main_def Let_def)
  next
    case False
    with Inr assms show ?thesis by (simp add: main_def)
  qed
qed

lemma fetch_all_store:
  assumes "py_iter room_ids = Inr rooms"
    and "submit_tasks http start_date rooms [] = (fs, None)"
    and "collect_results (sched fs) [] [] = (batch, out, None)"
  shows "fetch_all_rooms_availability P sched http room_ids start_date db
           = \<lparr>run_db = db_after (store_availability_to_db P batch db),
              run_sql = sql_log (store_availability_to_db P batch db),
              run_out = out @ out_log (store_availability_to_db P batch db),
              run_tasks = task_room_ids fs,
              run_batch = Some batch,
              run_raised = raised (store_availability_to_db P batch db)\<rparr>"
  using assms by (simp add: fetch_all_rooms_availability_def Let_def)

text \<open>
  Claim C6. The directory holds two rooms, in either order. The request for the first
  raises a request exception (a timeout); the request for the second succeeds with a
  response of three items in total. Then, in whichever order the two tasks complete, the
  batch handed to the store is the three records of the second room, each carrying its
  identifier, and the output has the request-error line that names the first room.
\<close>

theorem timeout_and_success_give_three_records:
  assumes sched: "\<forall>fs. mset (sched fs) = mset fs"
    and two: "mset rooms = {#room1, room2#}"
    and id1: "py_getitem room1 ''id'' = Inr id1"
    and id2: "py_getitem room2 ''id'' = Inr id2"
    and timeout: "http id1 None 100 = Inl e" "is_RequestException e"
    and success: "http id2 None 100 = Inr data" "parse_response id2 data = Inr recs"
    and three: "total_items data = 3"
  shows "run_batch (main P sched http (Inr (PList rooms)) db) = Some recs
       \<and> length recs = 3
       \<and> (\<forall>r \<in> set recs. item_get r ''room_id'' = Inr id2)
       \<and> RequestErrorForRoom id1 e \<in> set (run_out (main P sched http (Inr (PList rooms)) db))
       \<and> log_room (RequestErrorForRoom id1 e) = Some id1"
proof -
  let ?m = "RequestErrorForRoom id1 e"
  let ?f1 = "(room1, [?m], Inr [] :: py_exn + 'a pydict list)"
  let ?f2 = "(room2, [] :: 'a log_msg list, Inr recs :: py_exn + 'a pydict list)"
  have f1: "fetch_single_room_availability http id1 None 100 = ([?m], Inr [])"
    using timeout by (simp add: fetch_single_room_availability_def exn_bind_def)
  have f2: "fetch_single_room_availability http id2 None 100 = ([], Inr recs)"
    using success by (simp add: fetch_single_room_availability_def exn_bind_def)
  from success(2) have "recs = concat (map (subject_records id2) (response_subjects data))"
    by (rule parse_response_Inr)
  then have "length recs = total_items data"
    by (simp only: length_concat_subject_records total_items_def)
  with three have len: "length recs = 3" by simp
  then have ne: "recs \<noteq> []" by auto
  from two have "rooms = [room1, room2] \<or> rooms = [room2, room1]"
    by (rule two_element_list)
  then obtain fs where s: "submit_tasks http None rooms [] = (fs, None)"
    and fs: "mset fs = {#?f1, ?f2#}"
    using id1 id2 f1 f2 by auto
  from sched fs have "mset (sched fs) = {#?f1, ?f2#}" by simp
  then have "sched fs = [?f1, ?f2] \<or> sched fs = [?f2, ?f1]"
    by (rule two_element_list)
  with ne have c: "collect_results (sched fs) [] [] = (recs, [?m], None)"
    by (rule collect_results_two)
  from two have "rooms \<noteq> []" by auto
  then have m: "main P sched http (Inr (PList rooms)) db
                  = fetch_all_rooms_availability P sched http (PList rooms) None db"
    by (simp add: main_def Let_def)
  have "py_iter (PList rooms) = Inr rooms" by simp
  from fetch_all_store [of "PList rooms" rooms http None fs sched recs "[?m]" P db, OF this s c] m
  have
    b: "run_batch (main P sched http (Inr (PList rooms)) db) = Some recs" and
    o: "run_out (main P sched http (Inr (PList rooms)) db)
          = [?m] @ out_log (store_availability_to_db P recs db)"
    by simp_all
  have ids: "\<forall>r \<in> set recs. item_get r ''room_id'' = Inr id2"
    using fetch_single_room_ids [OF f2] by blast
  from b len ids o show ?thesis by simp
qed

theorem timeout_and_success_give_three_records_witness:
  "mset [PDict [(''id'', PInt 101), (''name'', PStr ''ESJ 0101'')],
         PDict [(''id'', PInt 102), (''name'', PStr ''ESJ 0202'')]]
     = {#PDict [(''id'', PInt 101), (''name'', PStr ''ESJ 0101'')],
         PDict [(''id'', PInt 102 :: int pyval), (''name'', PStr ''ESJ 0202'')]#}
   \<and> two_room_upstream (PInt 101) None 100 = Inl (RequestException ''timed out'')
   \<and> two_room_upstream (PInt 102) None 100 = Inr three_item_response
   \<and> total_items three_item_response = 3
   \<and> map_option length (run_batch (main decimal_prims rev two_room_upstream (Inr two_rooms) None))
       = Some 3
   \<and> RequestErrorForRoom (PInt 101) (RequestException ''timed out'')
       \<in> set (run_out (main decimal_prims rev two_room_upstream (Inr two_rooms) None))"
  using timeout_and_success_give_three_records
    [of rev "[PDict [(''id'', PInt 101), (''name'', PStr ''ESJ 0101'')],
              PDict [(''id'', PInt 102), (''name'', PStr ''ESJ 0202'')]]"
        "PDict [(''id'', PInt 101), (''name'', PStr ''ESJ 0101'')]"
        "PDict [(''id'', PInt 102), (''name'', PStr ''ESJ 0202'')]"
        "PInt 101" "PInt 102" two_room_upstream "RequestException ''timed out''"
        three_item_response
        "concat (map (subject_records (PInt 102)) (response_subjects three_item_response))"
        decimal_prims None]
  by (simp add: two_rooms_def two_room_upstream_def three_item_response_def total_items_def
        response_subjects_def subject_items_def subject_records_def item_record_def
        array_elems_def field_def parse_response_def exn_bind_def make_record_def)

text \<open>
  Claim C7 as stated, at the empty directory: it does not hold that the run has no fetch
  task, prints the store's \<^verbatim>\<open>No availability data to store.\<close> and leaves the table
  alone. The entry point does not call the orchestrator on an empty list, so the store
  never runs and its message is not printed.
\<close>

theorem empty_directory_store_not_reached:
  "\<not> (run_tasks (main decimal_prims rev
                    (constant_upstream (Inl (RequestException ''unreachable'')))
                    (Inr (PList [])) None) = []
      \<and> NoAvailabilityData
           \<in> set (run_out (main decimal_prims rev
                             (constant_upstream (Inl (RequestException ''unreachable'')))
                             (Inr (PList [])) None))
      \<and> run_sql (main decimal_prims rev
                    (constant_upstream (Inl (RequestException ''unreachable'')))
                    (Inr (PList [])) None) = []
      \<and> run_db (main decimal_prims rev
                   (constant_upstream (Inl (RequestException ''unreachable'')))
                   (Inr (PList [])) None) = None)"
  by (simp add: main_def)

text \<open>
  Claim C7, amended. When the room directory parses to the empty list, the entry point
  submits no fetch task, executes no statement and leaves the table as it was; it prints
  \<^verbatim>\<open>No room IDs to process.\<close> and nothing else, since it does not call the orchestrator
  and so does not reach the store. When the orchestrator is itself called on the empty
  list, it submits no task, and the store prints \<^verbatim>\<open>No availability data to store.\<close>
  and executes no statement.
\<close>

theorem empty_directory_runs_nothing:
  "main P sched http (Inr (PList [])) db
     = \<lparr>run_db = db, run_sql = [], run_out = [NoRoomIds], run_tasks = [], run_batch = None,
        run_raised = None\<rparr>
   \<and> NoAvailabilityData \<notin> set (run_out (main P sched http (Inr (PList [])) db))
   \<and> (sched [] = [] \<longrightarrow>
        fetch_all_rooms_availability P sched http (PList []) start_date db
          = \<lparr>run_db = db, run_sql = [], run_out = [NoAvailabilityData], run_tasks = [],
             run_batch = Some [], run_raised = None\<rparr>)"
  by (simp add: main_def fetch_all_rooms_availability_def store_availability_to_db_def
        task_room_ids_def)

theorem empty_directory_runs_nothing_witness:
  "rev ([] :: int future list) = []
   \<and> main decimal_prims rev two_room_upstream (Inr (PList [])) None
       = \<lparr>run_db = None, run_sql = [], run_out = [NoRoomIds], run_tasks = [],
          run_batch = None, run_raised = None\<rparr>
   \<and> fetch_all_rooms_availability decimal_prims rev two_room_upstream (PList []) None None
       = \<lparr>run_db = None, run_sql = [], run_out = [NoAvailabilityData], run_tasks = [],
          run_batch = Some [], run_raised = None\<rparr>"
  using empty_directory_runs_nothing [of decimal_prims rev two_room_upstream None None]
  by simp

text \<open>
  Claim C8. In every run that reaches the store, the directory was loaded and is iterable,
  and every record of the batch has as \<open>room_id\<close> the \<open>id\<close> of a room of that directory.
  The same holds for every row of the table after the store of a non-empty batch, and for
  the identifier of every task submitted.
\<close>

theorem batch_room_ids_from_directory:
  assumes sched: "\<forall>fs. mset (sched fs) = mset fs"
    and batch: "run_batch (main P sched http load db) = Some batch"
  shows "\<exists>room_ids rooms. load = Inr room_ids \<and> py_iter room_ids = Inr rooms
       \<and> (\<forall>r \<in> set batch. \<exists>room \<in> set rooms. \<exists>space_id.
             py_getitem room ''id'' = Inr space_id \<and> item_get r ''room_id'' = Inr space_id)
       \<and> (batch \<noteq> [] \<longrightarrow>
            (\<forall>(k, row) \<in> set (table_rows (run_db (main P sched http load db))).
               \<exists>room \<in> set rooms. py_getitem room ''id'' = Inr (r_room_id row)))
       \<and> (\<forall>space_id \<in> set (run_tasks (main P sched http load db)).
             \<exists>room \<in> set rooms. py_getitem room ''id'' = Inr space_id)"
proof -
  from main_batch [OF batch] obtain room_ids where load: "load = Inr room_ids"
    and b: "run_batch (fetch_all_rooms_availability P sched http room_ids None db) = Some batch"
    and db: "run_db (main P sched http load db)
               = run_db (fetch_all_rooms_availability P sched http room_ids None db)"
    and tasks: "run_tasks (main P sched http load db)
               = run_tasks (fetch_all_rooms_availability P sched http room_ids None db)"
    by blast
  from fetch_all_reaches_store [OF b] obtain rooms where rooms: "py_iter room_ids = Inr rooms"
    by blast
  have recs: "\<exists>room \<in> set rooms. \<exists>space_id.
             py_getitem room ''id'' = Inr space_id \<and> item_get r ''room_id'' = Inr space_id"
    if "r \<in> set batch" for r
    using fetch_all_batch_sources [OF sched b that] rooms by simp
  have rows: "\<exists>room \<in> set rooms. py_getitem room ''id'' = Inr (r_room_id row)"
    if "batch \<noteq> []" and "(k, row) \<in> set (table_rows (run_db (main P sched http load db)))"
    for k row
    using fetch_all_rows_sources [OF sched b that(1), of k row] that(2) db rooms by simp
  have ids: "\<exists>room \<in> set rooms. py_getitem room ''id'' = Inr space_id"
    if "space_id \<in> set (run_tasks (main P sched http load db))" for space_id
    using fetch_all_tasks_sources [OF b, of space_id] that tasks rooms by simp
  from load rooms recs rows ids show ?thesis by blast
qed

theorem batch_room_ids_from_directory_witness:
  "mset (rev [PInt 1, PInt 2 :: int pyval]) = mset [PInt 1, PInt 2]
   \<and> run_batch (main decimal_prims rev two_room_upstream (Inr two_rooms) None)
       = Some (concat (map (subject_records (PInt 102)) (response_subjects three_item_response)))
   \<and> map (\<lambda>r. item_get r ''room_id'')
        (concat (map (subject_records (PInt 102)) (response_subjects three_item_response)))
       = [Inr (PInt 102), Inr (PInt 102), Inr (PInt 102)]
   \<and> map (\<lambda>(k, row). r_room_id row)
        (table_rows (run_db (main decimal_prims rev two_room_upstream (Inr two_rooms) None)))
       = [PInt 102, PInt 102, PInt 102]
   \<and> run_tasks (main decimal_prims rev two_room_upstream (Inr two_rooms) None)
       = [PInt 101, PInt 102]
   \<and> py_iter two_rooms
       = Inr [PDict [(''id'', PInt 101), (''name'', PStr ''ESJ 0101'')],
              PDict [(''id'', PInt 102), (''name'', PStr ''ESJ 0202'')]]"
  using batch_room_ids_from_directory
    [of rev decimal_prims two_room_upstream "Inr two_rooms" None
        "concat (map (subject_records (PInt 102)) (response_subjects three_item_response))"]
  by (simp add: two_rooms_def two_room_upstream_def three_item_response_def
        response_subjects_def subject_items_def subject_records_def item_record_def
        array_elems_def field_def parse_response_def make_record_def
        main_def fetch_all_rooms_availability_def fetch_single_room_availability_def
        task_room_ids_def Let_def eval_store)

end
